theory Spec2Isabelle
  imports Main
begin

section \<open>JavaScript values\<close>

text \<open>
  A parsed JSON value. An object is the list of its properties in order; a property that is
  not in the list is \<open>undefined\<close>, written \<open>None\<close> where a value may be undefined.
  Numbers are the integers (no claim below depends on a fraction). A string is the list
  of its code units, so \<open>length\<close> is the source's \<open>.length\<close>; a \<open>char\<close> has 8 bits, so
  the strings modelled are those whose code units are below 256.
\<close>

datatype json =
    JNull
  | JBool bool
  | JNum int
  | JStr string
  | JArr "json list"
  | JObj "(string \<times> json) list"

text \<open>What a rejected promise or a \<open>throw\<close> carries.\<close>

datatype js_error =
    TypeError
  | SyntaxError
  | FetchFailed
  | PlayFailed
  | Error json

text \<open>
  Property access \<open>v.name\<close> for the names used in the source (\<open>text\<close>, \<open>summary\<close>,
  \<open>error\<close>, \<open>final_output\<close>): a TypeError on \<open>null\<close>, the property or \<open>undefined\<close> on an
  object, \<open>undefined\<close> on every other value.
\<close>

fun get_prop :: "json \<Rightarrow> string \<Rightarrow> js_error + json option" where
  "get_prop JNull name = Inl TypeError"
| "get_prop (JObj props) name = Inr (map_of props name)"
| "get_prop v name = Inr None"

text \<open>JavaScript truthiness, and \<open>a || b\<close>: the left operand when it is truthy.\<close>

fun truthy :: "json option \<Rightarrow> bool" where
  "truthy None = False"
| "truthy (Some JNull) = False"
| "truthy (Some (JBool b)) = b"
| "truthy (Some (JNum n)) = (n \<noteq> 0)"
| "truthy (Some (JStr s)) = (s \<noteq> [])"
| "truthy (Some (JArr xs)) = True"
| "truthy (Some (JObj props)) = True"

definition js_or :: "json option \<Rightarrow> json \<Rightarrow> json" where
  "js_or a b = (case a of None \<Rightarrow> b | Some v \<Rightarrow> if truthy (Some v) then v else b)"

section \<open>The summarization route: \<open>app/api/gemini/route.ts\<close>\<close>

text \<open>
  \<open>process.env\<close> is a partial map from names to strings. Inside a template literal an
  unset variable prints as \<open>undefined\<close>.
\<close>

type_synonym environment = "string \<rightharpoonup> string"

definition template :: "string option \<Rightarrow> string" where
  "template v = (case v of None \<Rightarrow> ''undefined'' | Some s \<Rightarrow> s)"

text \<open>The outbound call: the arguments of \<open>fetch(url, {method, headers, body})\<close>.\<close>

record http_request =
  url :: string
  http_method :: string
  headers :: "(string \<times> string) list"
  body :: json

text \<open>
  What the provider answers: its status, and what \<open>completion.json()\<close> settles to (a
  SyntaxError when the payload is not JSON).
\<close>

record provider_response =
  provider_status :: nat
  provider_json :: "js_error + json"

text \<open>\<open>NextResponse.json(value)\<close>: status 200 and the value as the body.\<close>

record next_response =
  status :: nat
  payload :: json

definition NextResponse_json :: "json \<Rightarrow> next_response" where
  "NextResponse_json v = \<lparr>status = 200, payload = v\<rparr>"

text \<open>Line 5: the URL. The model segment is the literal \<open>gemini-pro\<close>.\<close>

definition gemini_url :: "environment \<Rightarrow> string" where
  "gemini_url env =
     ''https://generativelanguage.googleapis.com/v1beta/models/gemini-pro:generateContent?key=''
       @ template (env ''GEMINI_API_KEY'')"

text \<open>
  Line 9: \<open>{ contents: [ { parts: [ { text } ] } ] }\<close>; \<open>JSON.stringify\<close> leaves an
  undefined \<open>text\<close> out.
\<close>

definition gemini_body :: "json option \<Rightarrow> json" where
  "gemini_body text =
     JObj [(''contents'', JArr [JObj [(''parts'',
       JArr [JObj (case text of None \<Rightarrow> [] | Some t \<Rightarrow> [(''text'', t)])])]])]"

definition gemini_request :: "environment \<Rightarrow> json option \<Rightarrow> http_request" where
  "gemini_request env text =
     \<lparr>url = gemini_url env, http_method = ''POST'',
      headers = [(''Content-Type'', ''application/json'')],
      body = gemini_body text\<rparr>"

text \<open>
  The handler \<open>POST\<close>. Its inputs are the environment, what \<open>request.json()\<close> settles to,
  and the provider (what \<open>fetch\<close> settles to for a request). It returns the outbound calls it
  made, in order, and either the response or the error that leaves the handler: the source
  has no \<open>try\<close>, so every rejected \<open>await\<close> and the TypeError of destructuring \<open>null\<close>
  propagate. The two \<open>console.log\<close> lines write diagnostics only and are not modelled.
\<close>

definition POST ::
  "environment \<Rightarrow> js_error + json \<Rightarrow> (http_request \<Rightarrow> js_error + provider_response)
     \<Rightarrow> http_request list \<times> (js_error + next_response)" where
  "POST env request_json fetch =
     (case request_json of
        Inl e \<Rightarrow> ([], Inl e)
      | Inr parsed \<Rightarrow>
         (case get_prop parsed ''text'' of
            Inl e \<Rightarrow> ([], Inl e)
          | Inr text \<Rightarrow>
             (let req = gemini_request env text in
              case fetch req of
                Inl e \<Rightarrow> ([req], Inl e)
              | Inr completion \<Rightarrow>
                 (case provider_json completion of
                    Inl e \<Rightarrow> ([req], Inl e)
                  | Inr result \<Rightarrow> ([req], Inr (NextResponse_json result))))))"

text \<open>Inputs used below: a provider that answers every call with one fixed response.\<close>

definition candidates_payload :: json where
  "candidates_payload =
     JObj [(''candidates'', JArr [JObj [(''content'',
       JObj [(''parts'', JArr [JObj [(''text'', JStr ''Short summary'')]])])]])]"

definition provider_ok :: "http_request \<Rightarrow> js_error + provider_response" where
  "provider_ok req = Inr \<lparr>provider_status = 200, provider_json = Inr candidates_payload\<rparr>"

definition provider_down :: "http_request \<Rightarrow> js_error + provider_response" where
  "provider_down req = Inl FetchFailed"

definition test_request :: "js_error + json" where
  "test_request = Inr (JObj [(''text'', JStr ''Test'')])"

section \<open>The feed component: \<open>components/CommunityFeed.tsx\<close>\<close>

subsection \<open>Data\<close>

datatype post_type = Update | Advice | Soil | Crop | Question

text \<open>
  \<open>interface Post\<close>. The summary is optional, and holds whatever value the component stores
  there: the interface says \<open>string\<close>, but the value comes out of \<open>response.json()\<close>, which is
  untyped. The timestamp is the reading of \<open>new Date()\<close> in milliseconds.
\<close>

record post =
  id_post :: string
  author :: string
  content :: string
  summary :: "json option"
  timestamp :: int
  type_post :: post_type

text \<open>The six \<open>useState\<close> cells of the component.\<close>

record feed_state =
  posts :: "post list"
  newPost :: string
  postType :: post_type
  loading :: bool
  summarizing :: "string option"
  playingAudio :: "string option"

text \<open>
  What a client-side \<open>fetch\<close> resolves to: the \<open>ok\<close> flag, and what \<open>response.json()\<close> and
  \<open>response.blob()\<close> settle to. A \<open>fetch\<close> that rejects is \<open>Inl\<close> of the error.
\<close>

record response =
  ok :: bool
  json_result :: "js_error + json"
  blob_result :: "js_error + string"

subsection \<open>Strings\<close>

text \<open>
  \<open>String.prototype.trim\<close> removes white space and line terminators at both ends. Of these
  the code units below 256 are tab, line feed, vertical tab, form feed, carriage return,
  space and no-break space.
\<close>

definition js_whitespace :: "char \<Rightarrow> bool" where
  "js_whitespace c = (of_char c \<in> {9, 10, 11, 12, 13, 32, 160 :: nat})"

definition trim :: "string \<Rightarrow> string" where
  "trim s = rev (dropWhile js_whitespace (rev (dropWhile js_whitespace s)))"

text \<open>
  \<open>Number.prototype.toString\<close> on an integer such as \<open>Date.now()\<close> returns: the decimal
  digits, most significant first, after a minus sign when the number is negative.
\<close>

definition digit_char :: "nat \<Rightarrow> char" where
  "digit_char d = char_of (48 + d)"

fun digits :: "nat \<Rightarrow> string" where
  "digits n = (if n < 10 then [digit_char n] else digits (n div 10) @ [digit_char (n mod 10)])"

definition toString :: "int \<Rightarrow> string" where
  "toString i = (if i < 0 then CHR ''-'' # digits (nat (- i)) else digits (nat i))"

subsection \<open>\<open>summarizeWithGemini\<close>\<close>

definition summarize_request :: "string \<Rightarrow> http_request" where
  "summarize_request text =
     \<lparr>url = ''/api/gemini'', http_method = ''POST'',
      headers = [(''Content-Type'', ''application/json'')],
      body = JObj [(''text'', JStr text)]\<rparr>"

text \<open>The body of the \<open>try\<close> block (lines 26 to 40): \<open>Inl\<close> is what it throws.\<close>

definition summarize_try :: "js_error + response \<Rightarrow> js_error + json" where
  "summarize_try fetched =
     (case fetched of
        Inl e \<Rightarrow> Inl e
      | Inr response \<Rightarrow>
         if \<not> ok response then
           (case json_result response of
              Inl e \<Rightarrow> Inl e
            | Inr errorData \<Rightarrow>
               (case get_prop errorData ''error'' of
                  Inl e \<Rightarrow> Inl e
                | Inr err \<Rightarrow> Inl (Error (js_or err (JStr ''Failed to summarize'')))))
         else
           (case json_result response of
              Inl e \<Rightarrow> Inl e
            | Inr data \<Rightarrow>
               (case get_prop data ''summary'' of
                  Inl e \<Rightarrow> Inl e
                | Inr s \<Rightarrow> Inr (js_or s (JStr ''Unable to generate summary'')))))"

text \<open>Line 44, the fallback of the \<open>catch\<close> block.\<close>

definition local_summary :: "string \<Rightarrow> string" where
  "local_summary text = (if length text > 100 then take 100 text @ ''...'' else text)"

definition summarizeWithGemini :: "string \<Rightarrow> js_error + response \<Rightarrow> js_error + json" where
  "summarizeWithGemini text fetched =
     (case summarize_try fetched of
        Inr v \<Rightarrow> Inr v
      | Inl error \<Rightarrow> Inr (JStr (local_summary text)))"

subsection \<open>\<open>getAIAdvice\<close>\<close>

definition advice_request :: "string \<Rightarrow> http_request" where
  "advice_request input =
     \<lparr>url = ''/api/dedalus'', http_method = ''POST'',
      headers = [(''Content-Type'', ''application/json'')],
      body = JObj [(''input'', JStr input), (''model'', JStr ''openai/gpt-5-mini'')]\<rparr>"

text \<open>
  The body of the \<open>try\<close> block (lines 51 to 67). \<open>data.text\<close> is read only when
  \<open>data.final_output\<close> is falsy.
\<close>

definition advice_try :: "js_error + response \<Rightarrow> js_error + json" where
  "advice_try fetched =
     (case fetched of
        Inl e \<Rightarrow> Inl e
      | Inr response \<Rightarrow>
         if \<not> ok response then Inl (Error (JStr ''Failed to get AI advice''))
         else
           (case json_result response of
              Inl e \<Rightarrow> Inl e
            | Inr data \<Rightarrow>
               (case get_prop data ''final_output'' of
                  Inl e \<Rightarrow> Inl e
                | Inr final_output \<Rightarrow>
                   if truthy final_output
                   then Inr (js_or final_output (JStr ''Unable to generate advice''))
                   else
                     (case get_prop data ''text'' of
                        Inl e \<Rightarrow> Inl e
                      | Inr txt \<Rightarrow> Inr (js_or txt (JStr ''Unable to generate advice''))))))"

definition getAIAdvice :: "string \<Rightarrow> js_error + response \<Rightarrow> js_error + json" where
  "getAIAdvice input fetched =
     (case advice_try fetched of
        Inr v \<Rightarrow> Inr v
      | Inl error \<Rightarrow> Inr (JStr ''AI advice temporarily unavailable''))"

subsection \<open>\<open>handleSubmit\<close>\<close>

text \<open>
  \<open>handleSubmit\<close> is an async function with two \<open>await\<close>s. It runs in three segments, each
  without interruption: from the submit event to the first \<open>await\<close>, from the arrival of
  the summarization response to the second \<open>await\<close> or the end, and from the arrival of the
  advice response to the end. Between two segments any other event of the page may run.
  A suspended call is a task: the variables it has captured (\<open>postId\<close>, \<open>newPost\<close>,
  \<open>postType\<close>) and the \<open>await\<close> at which it waits.
\<close>

datatype await_point = AwaitSummary | AwaitAdvice | Finished

record task =
  task_postId :: string
  task_newPost :: string
  task_postType :: post_type
  task_at :: await_point

text \<open>Lines 152 to 154 and 165 to 169: the update passed to \<open>setPosts\<close>.\<close>

definition set_summary :: "string \<Rightarrow> json \<Rightarrow> post list \<Rightarrow> post list" where
  "set_summary postId v prev =
     map (\<lambda>p. if id_post p = postId then p\<lparr>summary := Some v\<rparr> else p) prev"

text \<open>
  Lines 129 to 151, up to the first \<open>await\<close>. \<open>now\<close> is the reading of \<open>Date.now()\<close> and
  \<open>date\<close> that of \<open>new Date()\<close>. The result is the new state, the suspended task (none when
  the text is blank) and the requests sent. \<open>setLoading(true)\<close> and \<open>setLoading(false)\<close> are
  in the same segment, which leaves \<open>loading\<close> false.
\<close>

definition handleSubmit :: "int \<Rightarrow> int \<Rightarrow> feed_state \<Rightarrow> feed_state \<times> task option \<times> http_request list" where
  "handleSubmit now date st =
     (if trim (newPost st) = [] then (st, None, [])
      else
        let postId = toString now;
            new_post = \<lparr>id_post = postId, author = ''You'', content = newPost st,
                        summary = None, timestamp = date, type_post = postType st\<rparr>
        in (st\<lparr>posts := new_post # posts st, newPost := [], loading := False,
                summarizing := Some postId\<rparr>,
            Some \<lparr>task_postId = postId, task_newPost = newPost st,
                  task_postType = postType st, task_at = AwaitSummary\<rparr>,
            [summarize_request (newPost st)]))"

text \<open>
  The continuation of a task when the response it waits for has arrived (or the \<open>fetch\<close> has
  failed). At \<open>AwaitSummary\<close>: lines 151 to 164, up to the second \<open>await\<close>. At
  \<open>AwaitAdvice\<close>: lines 164 to 173.
\<close>

definition handleSubmit_resume ::
  "task \<Rightarrow> js_error + response \<Rightarrow> feed_state \<Rightarrow> feed_state \<times> task \<times> http_request list" where
  "handleSubmit_resume t fetched st =
     (case task_at t of
        AwaitSummary \<Rightarrow>
          (let st1 =
             (case summarizeWithGemini (task_newPost t) fetched of
                Inr v \<Rightarrow> st\<lparr>posts := set_summary (task_postId t) v (posts st)\<rparr>
              | Inl error \<Rightarrow> st);
               st2 = st1\<lparr>summarizing := None\<rparr>
           in if task_postType t = Question
              then (st2, t\<lparr>task_at := AwaitAdvice\<rparr>, [advice_request (task_newPost t)])
              else (st2, t\<lparr>task_at := Finished\<rparr>, []))
      | AwaitAdvice \<Rightarrow>
          (case getAIAdvice (task_newPost t) fetched of
             Inr advice \<Rightarrow>
               (st\<lparr>posts := set_summary (task_postId t) advice (posts st)\<rparr>,
                t\<lparr>task_at := Finished\<rparr>, [])
           | Inl error \<Rightarrow> (st, t\<lparr>task_at := Finished\<rparr>, []))
      | Finished \<Rightarrow> (st, t, []))"

subsection \<open>A session of the page\<close>

text \<open>
  The events that reach the post list: typing into the text area, choosing the post type,
  submitting the form (with the two clock readings), and the arrival of the response a
  suspended task waits for. The session keeps the component state, the tasks in the order
  of their submission and the requests sent so far.
\<close>

datatype event =
    Typed string
  | Selected post_type
  | Submitted int int
  | Arrived nat "js_error + response"

record session =
  feed :: feed_state
  tasks :: "task list"
  sent :: "http_request list"

definition initial_feed :: feed_state where
  "initial_feed = \<lparr>posts = [], newPost = [], postType = Update, loading = False,
                    summarizing = None, playingAudio = None\<rparr>"

definition initial_session :: session where
  "initial_session = \<lparr>feed = initial_feed, tasks = [], sent = []\<rparr>"

fun step :: "session \<Rightarrow> event \<Rightarrow> session" where
  "step s (Typed v) = s\<lparr>feed := (feed s)\<lparr>newPost := v\<rparr>\<rparr>"
| "step s (Selected ty) = s\<lparr>feed := (feed s)\<lparr>postType := ty\<rparr>\<rparr>"
| "step s (Submitted now date) =
     (case handleSubmit now date (feed s) of
        (st, started, reqs) \<Rightarrow>
          \<lparr>feed = st,
           tasks = tasks s @ (case started of None \<Rightarrow> [] | Some t \<Rightarrow> [t]),
           sent = sent s @ reqs\<rparr>)"
| "step s (Arrived k fetched) =
     (if k < length (tasks s) then
        (case handleSubmit_resume (tasks s ! k) fetched (feed s) of
           (st, t, reqs) \<Rightarrow> \<lparr>feed = st, tasks = (tasks s)[k := t], sent = sent s @ reqs\<rparr>)
      else s)"

definition run :: "event list \<Rightarrow> session" where
  "run evs = foldl step initial_session evs"

text \<open>The readings of \<open>Date.now()\<close> at the submit events of a session, in order.\<close>

fun submit_times :: "event list \<Rightarrow> int list" where
  "submit_times [] = []"
| "submit_times (Submitted now date # evs) = now # submit_times evs"
| "submit_times (ev # evs) = submit_times evs"

subsection \<open>\<open>speakWithElevenLabs\<close>\<close>

text \<open>
  The handlers the function installs, each of which is \<open>() => setPlayingAudio(null)\<close>
  (\<open>audio.onended\<close> also revokes the object URL): the media events that clear the flag.
\<close>

datatype media_event = Audio_ended | Audio_error | Utterance_end | Utterance_error

text \<open>
  What a call leaves behind once it has settled: the value of \<open>playingAudio\<close>, the events
  with a handler installed, the texts given to \<open>speechSynthesis.speak\<close> and whether
  \<open>audio.play()\<close> was called.
\<close>

record listen =
  playing :: "string option"
  clears_on :: "media_event list"
  spoken :: "string list"
  played :: bool

definition speech_request :: "string \<Rightarrow> http_request" where
  "speech_request text =
     \<lparr>url = ''/api/elevenlabs-tts'', http_method = ''POST'',
      headers = [(''Content-Type'', ''application/json'')],
      body = JObj [(''text'', JStr text), (''voice_id'', JStr ''21m00Tcm4TlvDq8ikWAM'')]\<rparr>"

text \<open>
  Lines 93 to 95 and 119 to 121: speak the text on the device and clear the flag when the
  utterance ends.
\<close>

definition speak_locally :: "string \<Rightarrow> listen \<Rightarrow> listen" where
  "speak_locally text l = l\<lparr>spoken := spoken l @ [text], clears_on := clears_on l @ [Utterance_end]\<rparr>"

text \<open>
  The body of the \<open>try\<close> block (lines 78 to 114): the state it leaves and the error it
  throws, if any. \<open>speechSynthesis\<close> tells whether \<open>window.speechSynthesis\<close> exists, \<open>play\<close>
  is what \<open>audio.play()\<close> settles to. In the branch of a response that is not ok there is
  no \<open>else\<close>: without \<open>window.speechSynthesis\<close> the function returns at line 97.
\<close>

definition speak_try ::
  "string \<Rightarrow> bool \<Rightarrow> js_error + response \<Rightarrow> js_error + unit \<Rightarrow> listen \<Rightarrow> listen \<times> js_error option" where
  "speak_try text speechSynthesis fetched play l =
     (case fetched of
        Inl e \<Rightarrow> (l, Some e)
      | Inr response \<Rightarrow>
         if \<not> ok response then
           (case json_result response of
              Inl e \<Rightarrow> (l, Some e)
            | Inr errorData \<Rightarrow>
               (if speechSynthesis then speak_locally text l else l, None))
         else
           (case blob_result response of
              Inl e \<Rightarrow> (l, Some e)
            | Inr audioBlob \<Rightarrow>
               (let l1 = l\<lparr>clears_on := clears_on l @ [Audio_ended, Audio_error], played := True\<rparr>
                in case play of Inl e \<Rightarrow> (l1, Some e) | Inr u \<Rightarrow> (l1, None))))"

definition speakWithElevenLabs ::
  "string \<Rightarrow> string \<Rightarrow> bool \<Rightarrow> js_error + response \<Rightarrow> js_error + unit \<Rightarrow> listen" where
  "speakWithElevenLabs text postId speechSynthesis fetched play =
     (let l0 = \<lparr>playing = Some postId, clears_on = [], spoken = [], played = False\<rparr>
      in case speak_try text speechSynthesis fetched play l0 of
           (l, None) \<Rightarrow> l
         | (l, Some error) \<Rightarrow>
             if speechSynthesis then speak_locally text l else l\<lparr>playing := None\<rparr>)"

text \<open>A media event runs its handler, if one is installed.\<close>

definition media_fire :: "listen \<Rightarrow> media_event \<Rightarrow> listen" where
  "media_fire l ev = (if ev \<in> set (clears_on l) then l\<lparr>playing := None\<rparr> else l)"

section \<open>Properties of payloads and sessions\<close>

text \<open>
  The property \<open>data.name\<close> of a value that is not \<open>null\<close>: \<open>None\<close> is \<open>undefined\<close>.
\<close>

definition property :: "json \<Rightarrow> string \<Rightarrow> json option" where
  "property data name = (case get_prop data name of Inl e \<Rightarrow> None | Inr v \<Rightarrow> v)"

text \<open>
  The payload a client call can read properties of: the body of a response that is OK and
  whose body is JSON and not \<open>null\<close>. There is none when the \<open>fetch\<close> was rejected, the
  status is not OK, the body is not JSON or the body is \<open>null\<close>.
\<close>

definition payload_of :: "js_error + response \<Rightarrow> json option" where
  "payload_of fetched =
     (case fetched of
        Inl e \<Rightarrow> None
      | Inr response \<Rightarrow>
          if \<not> ok response then None
          else (case json_result response of
                  Inl e \<Rightarrow> None
                | Inr data \<Rightarrow> if data = JNull then None else Some data))"

text \<open>A truthy value that is not a string.\<close>

fun truthy_non_string :: "json option \<Rightarrow> bool" where
  "truthy_non_string None = False"
| "truthy_non_string (Some (JStr s)) = False"
| "truthy_non_string (Some v) = truthy (Some v)"

text \<open>Reading a decimal numeral back, to show that \<open>toString\<close> loses nothing.\<close>

definition undigits :: "string \<Rightarrow> nat" where
  "undigits s = foldl (\<lambda>a c. 10 * a + (of_char c - 48)) 0 s"

text \<open>The ids of the post list, first post first.\<close>

definition post_ids :: "session \<Rightarrow> string list" where
  "post_ids s = map id_post (posts (feed s))"

text \<open>Inputs used below.\<close>

definition soil_question :: string where
  "soil_question = ''Is my soil too acidic?''"

definition asking :: feed_state where
  "asking = \<lparr>posts = [], newPost = soil_question, postType = Question, loading = False,
             summarizing = None, playingAudio = None\<rparr>"

definition two_posts :: "post list" where
  "two_posts =
     [\<lparr>id_post = ''1700000000005'', author = ''You'', content = soil_question,
       summary = None, timestamp = 1700000000005, type_post = Question\<rparr>,
      \<lparr>id_post = ''1700000000001'', author = ''You'', content = ''Rain today'',
       summary = Some (JStr ''Rain today''), timestamp = 1700000000001, type_post = Update\<rparr>]"

definition key_missing :: "js_error + response" where
  "key_missing =
     Inr \<lparr>ok = False,
          json_result = Inr (JObj [(''success'', JBool False),
                                   (''error'', JStr ''ElevenLabs API key not configured'')]),
          blob_result = Inr []\<rparr>"

definition lime_advice :: "js_error + response" where
  "lime_advice =
     Inr \<lparr>ok = True,
          json_result = Inr (JObj [(''success'', JBool True),
                                   (''final_output'', JStr ''Add lime to raise the pH'')]),
          blob_result = Inl TypeError\<rparr>"

definition null_body :: "js_error + response" where
  "null_body = Inr \<lparr>ok = True, json_result = Inr JNull, blob_result = Inl TypeError\<rparr>"

definition rain_submitted :: "event list" where
  "rain_submitted = [Selected Soil, Typed ''Rain today'', Submitted 1700000000001 1700000000002]"

definition same_clock :: "event list" where
  "same_clock = [Typed ''Rain today'', Submitted 1700000000000 1700000000000,
                 Typed ''Sowing maize'', Submitted 1700000000000 1700000000000]"

definition two_submissions :: "event list" where
  "two_submissions = [Typed ''Rain today'', Submitted 1700000000000 1700000000000,
                      Typed ''Sowing maize'', Submitted 1700000000001 1700000000001]"

declare digits.simps [simp del]

section \<open>The route against its contract\<close>

text \<open>
  C1. Whatever JSON the provider answers, the handler answers status 200 with that payload
  as it came. With a credential and a provider that answers with a first candidate text,
  the body has neither a \<open>summary\<close> nor an \<open>error\<close> property.
\<close>

theorem POST_relays_raw_payload:
  "snd (POST env (Inr (JObj props))
         (\<lambda>req. Inr \<lparr>provider_status = code, provider_json = Inr result\<rparr>))
     = Inr \<lparr>status = 200, payload = result\<rparr>
   \<and> snd (POST [''GEMINI_API_KEY'' \<mapsto> ''k''] test_request provider_ok)
       = Inr \<lparr>status = 200, payload = candidates_payload\<rparr>
   \<and> get_prop candidates_payload ''summary'' = Inr None
   \<and> get_prop candidates_payload ''error'' = Inr None"
  by (simp add: POST_def test_request_def provider_ok_def NextResponse_json_def
      candidates_payload_def)

text \<open>
  C2. With no credential in the environment the handler still calls the provider, once,
  with the key \<open>undefined\<close> in the URL, and relays the answer with status 200.
\<close>

theorem POST_forwards_without_credential:
  "fst (POST Map.empty (Inr (JObj props)) fetch)
     = [gemini_request Map.empty (map_of props ''text'')]
   \<and> POST Map.empty test_request provider_ok =
     ([\<lparr>url = ''https://generativelanguage.googleapis.com/v1beta/models/gemini-pro:generateContent?key=undefined'',
        http_method = ''POST'', headers = [(''Content-Type'', ''application/json'')],
        body = gemini_body (Some (JStr ''Test''))\<rparr>],
      Inr \<lparr>status = 200, payload = candidates_payload\<rparr>)"
proof
  show "fst (POST Map.empty (Inr (JObj props)) fetch)
          = [gemini_request Map.empty (map_of props ''text'')]"
    by (simp add: POST_def Let_def split: sum.splits)
next
  show "POST Map.empty test_request provider_ok =
     ([\<lparr>url = ''https://generativelanguage.googleapis.com/v1beta/models/gemini-pro:generateContent?key=undefined'',
        http_method = ''POST'', headers = [(''Content-Type'', ''application/json'')],
        body = gemini_body (Some (JStr ''Test''))\<rparr>],
      Inr \<lparr>status = 200, payload = candidates_payload\<rparr>)"
    by (simp add: POST_def test_request_def provider_ok_def NextResponse_json_def
        gemini_request_def gemini_url_def template_def)
qed

text \<open>
  C3. When the provider call throws, or the provider's payload is not JSON, the error
  leaves the handler: there is no response.
\<close>

theorem POST_provider_failure_escapes:
  "snd (POST env (Inr (JObj props)) (\<lambda>req. Inl e)) = Inl e
   \<and> snd (POST env (Inr (JObj props))
          (\<lambda>req. Inr \<lparr>provider_status = code, provider_json = Inl e\<rparr>)) = Inl e
   \<and> snd (POST [''GEMINI_API_KEY'' \<mapsto> ''k''] test_request provider_down) = Inl FetchFailed
   \<and> snd (POST [''GEMINI_API_KEY'' \<mapsto> ''k''] test_request
          (\<lambda>req. Inr \<lparr>provider_status = 502, provider_json = Inl SyntaxError\<rparr>))
       = Inl SyntaxError"
  by (simp add: POST_def test_request_def provider_down_def)

text \<open>
  C8. The URL of the provider request does not depend on \<open>GEMINI_MODEL\<close>: with the
  override set, the request still targets \<open>gemini-pro\<close>.
\<close>

theorem gemini_url_ignores_model_override:
  "gemini_url (env(''GEMINI_MODEL'' \<mapsto> m)) = gemini_url env
   \<and> url (gemini_request (env(''GEMINI_MODEL'' \<mapsto> m)) text) = url (gemini_request env text)
   \<and> gemini_url [''GEMINI_API_KEY'' \<mapsto> ''k'', ''GEMINI_MODEL'' \<mapsto> ''gemini-1.5-pro'']
       = ''https://generativelanguage.googleapis.com/v1beta/models/gemini-pro:generateContent?key=k''"
  by (simp add: gemini_url_def gemini_request_def template_def)

section \<open>The two client calls never reject\<close>

lemma get_prop_property: "data \<noteq> JNull \<Longrightarrow> get_prop data name = Inr (property data name)"
  by (cases data) (simp_all add: property_def)

lemma js_or_is_truthy: "truthy (Some d) \<Longrightarrow> truthy (Some (js_or a d))"
  by (cases a) (simp_all add: js_or_def)

lemma js_or_string_iff:
  "d \<noteq> [] \<Longrightarrow> (\<exists>s. js_or a (JStr d) = JStr s \<and> s \<noteq> []) = (\<not> truthy_non_string a)"
  by (cases a rule: truthy_non_string.cases) (simp_all add: js_or_def)

lemma js_or_nested_string_iff:
  "d \<noteq> [] \<Longrightarrow>
     (\<exists>s. js_or a (js_or b (JStr d)) = JStr s \<and> s \<noteq> [])
       = (\<not> (truthy_non_string a \<or> \<not> truthy a \<and> truthy_non_string b))"
  using js_or_string_iff [of d b]
  by (cases a rule: truthy_non_string.cases) (simp_all add: js_or_def)

lemma summarize_try_thrown: "payload_of fetched = None \<Longrightarrow> \<exists>e. summarize_try fetched = Inl e"
  by (auto simp: payload_of_def summarize_try_def split: sum.splits if_splits)

lemma summarize_try_value:
  "payload_of fetched = Some data \<Longrightarrow>
     summarize_try fetched = Inr (js_or (property data ''summary'') (JStr ''Unable to generate summary''))"
  by (auto simp: payload_of_def summarize_try_def get_prop_property split: sum.splits if_splits)

lemma summarizeWithGemini_value:
  "summarizeWithGemini text fetched =
     Inr (case payload_of fetched of
            None \<Rightarrow> JStr (if length text \<le> 100 then text else take 100 text @ ''...'')
          | Some data \<Rightarrow> js_or (property data ''summary'') (JStr ''Unable to generate summary''))"
proof (cases "payload_of fetched")
  case None
  from summarize_try_thrown [OF None] obtain e where "summarize_try fetched = Inl e" by blast
  with None show ?thesis by (simp add: summarizeWithGemini_def local_summary_def)
next
  case (Some data)
  from summarize_try_value [OF Some] Some show ?thesis by (simp add: summarizeWithGemini_def)
qed

lemma advice_try_thrown: "payload_of fetched = None \<Longrightarrow> \<exists>e. advice_try fetched = Inl e"
  by (auto simp: payload_of_def advice_try_def split: sum.splits if_splits)

lemma js_or_skip: "\<not> truthy a \<Longrightarrow> js_or a d = d"
  by (cases a) (simp_all add: js_or_def)

lemma js_or_take: "truthy a \<Longrightarrow> js_or a d = js_or a d'"
  by (cases a) (simp_all add: js_or_def)

lemma advice_try_value:
  assumes "payload_of fetched = Some data"
  shows "advice_try fetched =
     Inr (js_or (property data ''final_output'')
           (js_or (property data ''text'') (JStr ''Unable to generate advice'')))"
proof -
  from assms obtain response where f: "fetched = Inr response" "ok response"
    "json_result response = Inr data" "data \<noteq> JNull"
    by (auto simp: payload_of_def split: sum.splits if_splits)
  show ?thesis
  proof (cases "truthy (property data ''final_output'')")
    case True
    with f js_or_take [OF True] show ?thesis
      by (simp add: advice_try_def get_prop_property)
  next
    case False
    with f show ?thesis
      by (simp add: advice_try_def get_prop_property js_or_skip)
  qed
qed

lemma getAIAdvice_value:
  "getAIAdvice input fetched =
     Inr (case payload_of fetched of
            None \<Rightarrow> JStr ''AI advice temporarily unavailable''
          | Some data \<Rightarrow>
              js_or (property data ''final_output'')
                (js_or (property data ''text'') (JStr ''Unable to generate advice'')))"
proof (cases "payload_of fetched")
  case None
  from advice_try_thrown [OF None] obtain e where "advice_try fetched = Inl e" by blast
  with None show ?thesis by (simp add: getAIAdvice_def)
next
  case (Some data)
  from advice_try_value [OF Some] Some show ?thesis by (simp add: getAIAdvice_def)
qed

text \<open>
  C5, as the code has it. For every prompt and every outcome of the call to the proxy the
  operation resolves and never rejects. When the \<open>fetch\<close> is rejected, the status is not
  OK, the body is not JSON or the body is \<open>null\<close>, it resolves to the string
  \<open>AI advice temporarily unavailable\<close>. Otherwise it resolves to \<open>final_output\<close> of the
  payload when that is truthy, otherwise to \<open>text\<close> of the payload when that is truthy,
  otherwise to the string \<open>Unable to generate advice\<close>. The result is always truthy; it is
  a non-empty string except exactly when the value so chosen (\<open>final_output\<close>, or \<open>text\<close>
  when \<open>final_output\<close> is falsy) is a truthy value that is not a string.
\<close>

theorem getAIAdvice_resolves:
  "getAIAdvice input fetched =
     Inr (case payload_of fetched of
            None \<Rightarrow> JStr ''AI advice temporarily unavailable''
          | Some data \<Rightarrow>
              js_or (property data ''final_output'')
                (js_or (property data ''text'') (JStr ''Unable to generate advice'')))
   \<and> (\<exists>v. getAIAdvice input fetched = Inr v \<and> truthy (Some v) \<and>
        ((\<exists>s. v = JStr s \<and> s \<noteq> []) \<longleftrightarrow>
           \<not> (\<exists>data. payload_of fetched = Some data \<and>
                 (truthy_non_string (property data ''final_output'')
                  \<or> \<not> truthy (property data ''final_output'')
                      \<and> truthy_non_string (property data ''text'')))))"
proof (cases "payload_of fetched")
  case None
  with getAIAdvice_value [of input fetched] show ?thesis by simp
next
  case (Some data)
  have "truthy (Some (js_or (property data ''final_output'')
           (js_or (property data ''text'') (JStr ''Unable to generate advice''))))"
    by (simp add: js_or_is_truthy)
  with Some getAIAdvice_value [of input fetched]
    js_or_nested_string_iff [of "''Unable to generate advice''"
      "property data ''final_output''" "property data ''text''"]
  show ?thesis by simp
qed

text \<open>
  The theorem at a payload with advice in \<open>final_output\<close>, and at an OK response whose
  body is \<open>null\<close>.
\<close>

theorem getAIAdvice_resolves_witness:
  "payload_of lime_advice
     = Some (JObj [(''success'', JBool True), (''final_output'', JStr ''Add lime to raise the pH'')])
   \<and> getAIAdvice soil_question lime_advice = Inr (JStr ''Add lime to raise the pH'')
   \<and> payload_of null_body = None
   \<and> getAIAdvice soil_question null_body = Inr (JStr ''AI advice temporarily unavailable'')"
  using getAIAdvice_resolves [of soil_question lime_advice]
    getAIAdvice_resolves [of soil_question null_body]
  by (simp add: payload_of_def lime_advice_def null_body_def property_def js_or_def)

text \<open>
  C5 as stated fails: a payload whose \<open>final_output\<close> is a truthy value that is not a
  string comes back as it is, here the number 42.
\<close>

theorem getAIAdvice_not_a_string:
  "getAIAdvice soil_question
     (Inr \<lparr>ok = True,
           json_result = Inr (JObj [(''success'', JBool True), (''final_output'', JNum 42)]),
           blob_result = Inl TypeError\<rparr>)
   = Inr (JNum 42)"
  by (simp add: getAIAdvice_def advice_try_def js_or_def)

section \<open>Submitting a post\<close>

lemma trim_soil_question: "trim soil_question = soil_question"
  by (simp add: trim_def soil_question_def js_whitespace_def)

text \<open>
  C4, as the code has it. For every submitted post of type question, the submit segment
  sends the summarization request alone and suspends at the first \<open>await\<close>. The advice
  request is sent by the continuation that runs when the summarization call has settled,
  after the summary has been written to the post and the summarizing mark cleared: the
  advice call starts only once the summarization call is complete. The continuation that
  runs when the advice call has settled sends nothing more and writes the advice over the
  summary of the post, so the advice is applied after the summary.
\<close>

theorem advice_sent_when_summary_settles:
  assumes "trim (newPost st) \<noteq> []" and "postType st = Question"
  shows "\<exists>st1 t. handleSubmit now date st = (st1, Some t, [summarize_request (newPost st)])
           \<and> task_at t = AwaitSummary
           \<and> (\<forall>fetched s. \<exists>s2 t2.
                 handleSubmit_resume t fetched s = (s2, t2, [advice_request (newPost st)])
                 \<and> task_at t2 = AwaitAdvice \<and> summarizing s2 = None
                 \<and> (\<exists>v. summarizeWithGemini (newPost st) fetched = Inr v
                        \<and> posts s2 = set_summary (toString now) v (posts s))
                 \<and> (\<forall>fetched' s'. \<exists>s3 t3.
                       handleSubmit_resume t2 fetched' s' = (s3, t3, [])
                       \<and> task_at t3 = Finished
                       \<and> (\<exists>a. getAIAdvice (newPost st) fetched' = Inr a
                              \<and> posts s3 = set_summary (toString now) a (posts s'))))"
  using assms
  by (auto simp: handleSubmit_def handleSubmit_resume_def Let_def summarizeWithGemini_def
      getAIAdvice_def split: sum.splits)

text \<open>The theorem at the question about soil: the submit segment sends one request.\<close>

theorem advice_sent_when_summary_settles_witness:
  "trim (newPost asking) \<noteq> [] \<and> postType asking = Question \<and>
   snd (snd (handleSubmit 1700000000005 1700000000005 asking)) = [summarize_request soil_question]"
proof -
  have a: "trim (newPost asking) \<noteq> []"
    by (simp add: asking_def trim_soil_question) (simp add: soil_question_def)
  have b: "postType asking = Question" by (simp add: asking_def)
  from advice_sent_when_summary_settles [OF a b, of 1700000000005 1700000000005]
  have "snd (snd (handleSubmit 1700000000005 1700000000005 asking))
          = [summarize_request (newPost asking)]"
    by auto
  with a b show ?thesis by (simp add: asking_def)
qed

text \<open>
  C4 as stated fails. After a question is submitted, and while its summarization call is
  in flight, the advice request has not been sent; it is sent when the summarization call
  settles (here: fails).
\<close>

theorem advice_waits_for_summary:
  "sent (run [Typed soil_question, Selected Question, Submitted 1700000000005 1700000000005])
     = [summarize_request soil_question]
   \<and> sent (run [Typed soil_question, Selected Question, Submitted 1700000000005 1700000000005,
                 Arrived 0 (Inl FetchFailed)])
     = [summarize_request soil_question, advice_request soil_question]"
  by (simp add: run_def initial_session_def initial_feed_def handleSubmit_def
      handleSubmit_resume_def Let_def trim_soil_question summarizeWithGemini_def
      summarize_try_def)
    (simp add: soil_question_def)

section \<open>Applying a result to the post list\<close>

lemma frame_set_summary:
  "i < length prev \<Longrightarrow>
     set_summary postId v prev ! i =
       (if id_post (prev ! i) = postId then (prev ! i)\<lparr>summary := Some v\<rparr> else prev ! i)"
  by (simp add: set_summary_def)

lemma length_set_summary: "length (set_summary postId v prev) = length prev"
  by (simp add: set_summary_def)

lemma ids_set_summary: "map id_post (set_summary postId v prev) = map id_post prev"
  by (induction prev) (simp_all add: set_summary_def)

lemma resume_posts:
  "posts (fst (handleSubmit_resume t fetched st)) = posts st
   \<or> (\<exists>v. posts (fst (handleSubmit_resume t fetched st))
            = set_summary (task_postId t) v (posts st))"
  by (auto simp: handleSubmit_resume_def Let_def split: await_point.splits sum.splits)

text \<open>
  C10. The update that applies a summary or an advice result keeps the length of the
  list; at every position the id, author, content, timestamp and type are as before, a
  post whose id matches has the result as its summary, and a post whose id does not match
  is unchanged. A continuation of \<open>handleSubmit\<close> changes the post list by this update only.
\<close>

theorem result_changes_only_matching_summary:
  "length (set_summary postId v prev) = length prev \<and>
   (\<forall>i < length prev.
      let p = prev ! i; q = set_summary postId v prev ! i in
        id_post q = id_post p \<and> author q = author p \<and> content q = content p \<and>
        timestamp q = timestamp p \<and> type_post q = type_post p \<and>
        (id_post p = postId \<longrightarrow> summary q = Some v) \<and>
        (id_post p \<noteq> postId \<longrightarrow> q = p)) \<and>
   (posts (fst (handleSubmit_resume t fetched st)) = posts st \<or>
    (\<exists>w. posts (fst (handleSubmit_resume t fetched st))
            = set_summary (task_postId t) w (posts st)))"
  using resume_posts [of t fetched st]
  by (simp add: length_set_summary frame_set_summary Let_def)

text \<open>
  The theorem on a list of two posts: the advice lands on the question, and the older post,
  at position 1, is unchanged.
\<close>

theorem result_changes_only_matching_summary_witness:
  "(1 :: nat) < length two_posts
   \<and> id_post (two_posts ! 1) \<noteq> ''1700000000005''
   \<and> set_summary ''1700000000005'' (JStr ''Add lime'') two_posts ! 1 = two_posts ! 1
   \<and> summary (set_summary ''1700000000005'' (JStr ''Add lime'') two_posts ! 0)
       = Some (JStr ''Add lime'')"
proof -
  have l: "(1 :: nat) < length two_posts" "(0 :: nat) < length two_posts"
    by (simp_all add: two_posts_def)
  have n: "id_post (two_posts ! 1) \<noteq> ''1700000000005''"
    "id_post (two_posts ! 0) = ''1700000000005''"
    by (simp_all add: two_posts_def)
  from result_changes_only_matching_summary
    [of "''1700000000005''" "JStr ''Add lime''" two_posts]
  have "\<forall>i < length two_posts.
      let p = two_posts ! i; q = set_summary ''1700000000005'' (JStr ''Add lime'') two_posts ! i in
        (id_post p = ''1700000000005'' \<longrightarrow> summary q = Some (JStr ''Add lime'')) \<and>
        (id_post p \<noteq> ''1700000000005'' \<longrightarrow> q = p)"
    by (simp add: Let_def)
  with l n show ?thesis by (metis (full_types))
qed

section \<open>The ids of a session\<close>

subsection \<open>\<open>toString\<close> is one-to-one\<close>

lemma of_char_digit_char: "d < 10 \<Longrightarrow> of_char (digit_char d) = 48 + d"
  by (simp add: digit_char_def)

lemma undigits_snoc: "undigits (s @ [c]) = 10 * undigits s + (of_char c - 48)"
  by (simp add: undigits_def)

lemma undigits_digits: "undigits (digits n) = n"
proof (induction n rule: digits.induct)
  case (1 n)
  show ?case
  proof (cases "n < 10")
    case True
    then show ?thesis
      by (simp add: digits.simps [of n] undigits_def of_char_digit_char)
  next
    case False
    then have "undigits (digits n) =
        10 * undigits (digits (n div 10)) + (of_char (digit_char (n mod 10)) - 48)"
      by (simp add: digits.simps [of n] undigits_snoc)
    also have "\<dots> = 10 * (n div 10) + n mod 10"
      using 1 False by (simp add: of_char_digit_char)
    finally show ?thesis by simp
  qed
qed

lemma digits_inj: "digits m = digits n \<Longrightarrow> m = n"
  by (metis undigits_digits)

lemma digit_char_not_minus: "d < 10 \<Longrightarrow> digit_char d \<noteq> CHR ''-''"
proof
  assume "d < 10" and "digit_char d = CHR ''-''"
  then have "of_char (digit_char d) = (of_char (CHR ''-'') :: nat)" by simp
  with \<open>d < 10\<close> show False by (simp add: of_char_digit_char)
qed

lemma digits_not_minus: "CHR ''-'' \<notin> set (digits n)"
proof (induction n rule: digits.induct)
  case (1 n)
  show ?case
  proof (cases "n < 10")
    case True
    then show ?thesis
      using digit_char_not_minus [of n] by (simp add: digits.simps [of n])
  next
    case False
    then show ?thesis
      using 1 digit_char_not_minus [of "n mod 10"] by (simp add: digits.simps [of n])
  qed
qed

lemma toString_sign: "i < 0 \<Longrightarrow> \<not> j < 0 \<Longrightarrow> toString i \<noteq> toString j"
proof
  assume "i < 0" "\<not> j < 0" "toString i = toString j"
  then have "CHR ''-'' # digits (nat (- i)) = digits (nat j)"
    by (simp add: toString_def)
  then have "CHR ''-'' \<in> set (digits (nat j))" by (metis list.set_intros(1))
  then show False using digits_not_minus by blast
qed

lemma toString_inj: "toString i = toString j \<Longrightarrow> i = j"
proof -
  assume eq: "toString i = toString j"
  show ?thesis
  proof (cases "i < 0"; cases "j < 0")
    assume "i < 0" "j < 0"
    with eq have "nat (- i) = nat (- j)" by (auto simp: toString_def dest: digits_inj)
    with \<open>i < 0\<close> \<open>j < 0\<close> show ?thesis by simp
  next
    assume "i < 0" "\<not> j < 0"
    then show ?thesis using toString_sign eq by blast
  next
    assume "\<not> i < 0" "j < 0"
    then show ?thesis using toString_sign [of j i] eq by simp
  next
    assume "\<not> i < 0" "\<not> j < 0"
    with eq have "nat i = nat j" by (auto simp: toString_def dest: digits_inj)
    with \<open>\<not> i < 0\<close> \<open>\<not> j < 0\<close> show ?thesis by simp
  qed
qed

subsection \<open>What one event does to the ids\<close>

lemma handleSubmit_ids:
  "map id_post (posts (fst (handleSubmit now date st))) =
     (if trim (newPost st) = [] then map id_post (posts st)
      else toString now # map id_post (posts st))"
  by (simp add: handleSubmit_def Let_def)

lemma handleSubmit_task:
  "fst (snd (handleSubmit now date st)) =
     (if trim (newPost st) = [] then None
      else Some \<lparr>task_postId = toString now, task_newPost = newPost st,
                 task_postType = postType st, task_at = AwaitSummary\<rparr>)"
  by (simp add: handleSubmit_def Let_def)

lemma resume_ids:
  "map id_post (posts (fst (handleSubmit_resume t fetched st))) = map id_post (posts st)"
  by (simp add: handleSubmit_resume_def Let_def ids_set_summary
      split: await_point.splits sum.splits)

lemma resume_postId:
  "task_postId (fst (snd (handleSubmit_resume t fetched st))) = task_postId t"
  by (simp add: handleSubmit_resume_def Let_def split: await_point.splits sum.splits)

lemma step_ids:
  "post_ids (step s ev) =
     (case ev of
        Submitted now date \<Rightarrow>
          if trim (newPost (feed s)) = [] then post_ids s else toString now # post_ids s
      | _ \<Rightarrow> post_ids s)"
proof (cases ev)
  case (Submitted now date)
  obtain st started reqs where h: "handleSubmit now date (feed s) = (st, started, reqs)"
    by (cases "handleSubmit now date (feed s)")
  with Submitted show ?thesis
    using handleSubmit_ids [of now date "feed s"] by (simp add: post_ids_def)
next
  case (Arrived k fetched)
  obtain st t reqs where h: "handleSubmit_resume (tasks s ! k) fetched (feed s) = (st, t, reqs)"
    by (cases "handleSubmit_resume (tasks s ! k) fetched (feed s)")
  with Arrived show ?thesis
    using resume_ids [of "tasks s ! k" fetched "feed s"] by (simp add: post_ids_def)
qed (simp_all add: post_ids_def)

lemma step_task_ids:
  "map task_postId (tasks (step s ev)) =
     (case ev of
        Submitted now date \<Rightarrow>
          if trim (newPost (feed s)) = [] then map task_postId (tasks s)
          else map task_postId (tasks s) @ [toString now]
      | _ \<Rightarrow> map task_postId (tasks s))"
proof (cases ev)
  case (Submitted now date)
  obtain st started reqs where h: "handleSubmit now date (feed s) = (st, started, reqs)"
    by (cases "handleSubmit now date (feed s)")
  with Submitted show ?thesis
    using handleSubmit_task [of now date "feed s"] by (simp split: if_splits)
next
  case (Arrived k fetched)
  obtain st t reqs where h: "handleSubmit_resume (tasks s ! k) fetched (feed s) = (st, t, reqs)"
    by (cases "handleSubmit_resume (tasks s ! k) fetched (feed s)")
  with Arrived show ?thesis
    using resume_postId [of "tasks s ! k" fetched "feed s"]
    by (simp add: map_update list_update_same_conv)
qed simp_all

lemma step_submit_head:
  assumes "trim (newPost (feed s)) \<noteq> []"
  shows "posts (feed (step s (Submitted now date))) =
           \<lparr>id_post = toString now, author = ''You'', content = newPost (feed s),
            summary = None, timestamp = date, type_post = postType (feed s)\<rparr>
           # posts (feed s)"
  using assms by (simp add: handleSubmit_def Let_def)

lemma run_snoc: "run (evs @ [ev]) = step (run evs) ev"
  by (simp add: run_def)

lemma run_Nil: "post_ids (run []) = [] \<and> tasks (run []) = []"
  by (simp add: run_def post_ids_def initial_session_def initial_feed_def)

lemma submit_times_snoc:
  "submit_times (evs @ [ev]) =
     submit_times evs @ (case ev of Submitted now date \<Rightarrow> [now] | _ \<Rightarrow> [])"
  by (induction evs rule: submit_times.induct) (simp_all split: event.splits)

subsection \<open>Invariants of a session\<close>

lemma ids_rev_tasks: "post_ids (run evs) = rev (map task_postId (tasks (run evs)))"
proof (induction evs rule: rev_induct)
  case Nil
  show ?case by (simp add: run_Nil)
next
  case (snoc ev evs)
  then show ?case
    by (simp add: run_snoc step_ids step_task_ids del: step.simps split: event.splits)
qed

lemma ids_from_clock: "set (post_ids (run evs)) \<subseteq> toString ` set (submit_times evs)"
proof (induction evs rule: rev_induct)
  case Nil
  show ?case by (simp add: run_Nil)
next
  case (snoc ev evs)
  then show ?case
    by (auto simp: run_snoc step_ids submit_times_snoc simp del: step.simps
        split: event.splits if_splits)
qed

lemma ids_distinct: "distinct (submit_times evs) \<Longrightarrow> distinct (post_ids (run evs))"
proof (induction evs rule: rev_induct)
  case Nil
  show ?case by (simp add: run_Nil)
next
  case (snoc ev evs)
  show ?case
  proof (cases ev)
    case (Submitted now date)
    from snoc.prems Submitted have d: "distinct (submit_times evs)"
      and fresh: "now \<notin> set (submit_times evs)"
      by (simp_all add: submit_times_snoc)
    have "toString now \<notin> set (post_ids (run evs))"
    proof
      assume "toString now \<in> set (post_ids (run evs))"
      then obtain t where "t \<in> set (submit_times evs)" "toString now = toString t"
        using ids_from_clock [of evs] by blast
      then show False using fresh toString_inj by blast
    qed
    with snoc.IH [OF d] Submitted show ?thesis
      by (simp add: run_snoc step_ids del: step.simps)
  next
    case (Typed v)
    with snoc show ?thesis
      by (simp add: run_snoc step_ids submit_times_snoc del: step.simps)
  next
    case (Selected ty)
    with snoc show ?thesis
      by (simp add: run_snoc step_ids submit_times_snoc del: step.simps)
  next
    case (Arrived k fetched)
    with snoc show ?thesis
      by (simp add: run_snoc step_ids submit_times_snoc del: step.simps)
  qed
qed

text \<open>
  C9, as the code has it. For every sequence of events of a session: when the readings of
  \<open>Date.now()\<close> at the submissions are pairwise distinct, the ids of the posts in the list
  are pairwise distinct; the ids in the list are those of the submissions in reverse order
  of submission; and a submission with a text that is not blank puts the new post, with the
  reading of the clock as its id, at the head of the list, before the posts that were there.
\<close>

theorem ids_distinct_for_distinct_clock:
  "(distinct (submit_times evs) \<longrightarrow> distinct (post_ids (run evs)))
   \<and> post_ids (run evs) = rev (map task_postId (tasks (run evs)))
   \<and> (trim (newPost (feed (run evs))) \<noteq> [] \<longrightarrow>
        posts (feed (run (evs @ [Submitted now date]))) =
          \<lparr>id_post = toString now, author = ''You'', content = newPost (feed (run evs)),
           summary = None, timestamp = date, type_post = postType (feed (run evs))\<rparr>
          # posts (feed (run evs)))"
  using ids_distinct [of evs] ids_rev_tasks [of evs] step_submit_head [of "run evs" now date]
  by (simp add: run_snoc del: step.simps)

text \<open>The theorem on two submissions one millisecond apart: the two ids differ.\<close>

theorem ids_distinct_for_distinct_clock_witness:
  "distinct (submit_times two_submissions) \<and> distinct (post_ids (run two_submissions))
   \<and> length (post_ids (run two_submissions)) = 2"
proof -
  have d: "distinct (submit_times two_submissions)"
    by (simp add: two_submissions_def)
  have l: "length (post_ids (run two_submissions)) = 2"
    by (simp add: two_submissions_def run_def post_ids_def initial_session_def
        initial_feed_def handleSubmit_def Let_def trim_def js_whitespace_def)
  from ids_distinct_for_distinct_clock [of two_submissions] d
  have "distinct (post_ids (run two_submissions))" by blast
  with d l show ?thesis by blast
qed

text \<open>
  C9 as stated fails: two submissions at the same reading of the clock give two posts
  with the same id.
\<close>

theorem same_clock_same_id:
  "post_ids (run same_clock) = [toString 1700000000000, toString 1700000000000]
   \<and> \<not> distinct (post_ids (run same_clock))"
  by (simp add: same_clock_def run_def post_ids_def initial_session_def initial_feed_def
      handleSubmit_def Let_def trim_def js_whitespace_def)

section \<open>The summary of a submitted post\<close>

lemma resume_summary:
  "task_at t = AwaitSummary \<Longrightarrow> summarizeWithGemini (task_newPost t) fetched = Inr v \<Longrightarrow>
     posts (fst (handleSubmit_resume t fetched st)) = set_summary (task_postId t) v (posts st)"
  by (simp add: handleSubmit_resume_def Let_def)

lemma summary_set_summary:
  "\<forall>p \<in> set (set_summary postId v prev). id_post p = postId \<longrightarrow> summary p = Some v"
proof
  fix p
  assume "p \<in> set (set_summary postId v prev)"
  then obtain q where p: "p = (if id_post q = postId then q\<lparr>summary := Some v\<rparr> else q)"
    unfolding set_summary_def set_map by (rule imageE)
  show "id_post p = postId \<longrightarrow> summary p = Some v"
    unfolding p by simp
qed

lemma arrived_posts:
  assumes "k < length (tasks s)"
  shows "posts (feed (step s (Arrived k fetched)))
           = posts (fst (handleSubmit_resume (tasks s ! k) fetched (feed s)))"
  using assms by (simp split: prod.splits)

lemma task_has_post: "k < length (tasks (run evs)) \<Longrightarrow>
    task_postId (tasks (run evs) ! k) \<in> set (post_ids (run evs))"
  by (simp add: ids_rev_tasks)

lemma submitted_task:
  assumes "trim (newPost (feed s)) \<noteq> []"
  shows "tasks (step s (Submitted now date)) =
           tasks s @ [\<lparr>task_postId = toString now, task_newPost = newPost (feed s),
                       task_postType = postType (feed s), task_at = AwaitSummary\<rparr>]"
  using assms by (simp add: handleSubmit_def Let_def)

lemma summary_arrives:
  assumes k: "k < length (tasks (run evs))"
    and a: "task_at (tasks (run evs) ! k) = AwaitSummary"
    and v: "summarizeWithGemini (task_newPost (tasks (run evs) ! k)) fetched = Inr v"
  shows "posts (feed (run (evs @ [Arrived k fetched])))
           = set_summary (task_postId (tasks (run evs) ! k)) v (posts (feed (run evs)))"
    and "\<exists>p \<in> set (posts (feed (run (evs @ [Arrived k fetched])))).
           id_post p = task_postId (tasks (run evs) ! k)"
    and "\<forall>p \<in> set (posts (feed (run (evs @ [Arrived k fetched])))).
           id_post p = task_postId (tasks (run evs) ! k) \<longrightarrow> summary p = Some v"
proof -
  show eq: "posts (feed (run (evs @ [Arrived k fetched])))
           = set_summary (task_postId (tasks (run evs) ! k)) v (posts (feed (run evs)))"
    using arrived_posts [OF k, of fetched] resume_summary [OF a v, of "feed (run evs)"]
    by (simp add: run_snoc del: step.simps)
  have "task_postId (tasks (run evs) ! k) \<in> set (map id_post (posts (feed (run evs))))"
    using task_has_post [OF k] by (simp add: post_ids_def)
  then have "task_postId (tasks (run evs) ! k)
      \<in> set (map id_post (set_summary (task_postId (tasks (run evs) ! k)) v (posts (feed (run evs)))))"
    by (simp only: ids_set_summary)
  with eq show "\<exists>p \<in> set (posts (feed (run (evs @ [Arrived k fetched])))).
           id_post p = task_postId (tasks (run evs) ! k)"
    by auto
  from eq show "\<forall>p \<in> set (posts (feed (run (evs @ [Arrived k fetched])))).
           id_post p = task_postId (tasks (run evs) ! k) \<longrightarrow> summary p = Some v"
    using summary_set_summary [of "task_postId (tasks (run evs) ! k)" v "posts (feed (run evs))"]
    by simp
qed

text \<open>
  C6, as the code has it. For every non-empty text and every outcome of the call to the
  proxy, the operation resolves to a truthy value. When the \<open>fetch\<close> is rejected, the
  status is not OK, the body is not JSON or the body is \<open>null\<close>, the value is the text
  itself if it has at most 100 characters, and otherwise its first 100 characters followed
  by three dots; otherwise it is \<open>summary\<close> of the payload when that is truthy, and the
  string \<open>Unable to generate summary\<close> when it is not. The value is a non-empty string
  except exactly when \<open>summary\<close> of the payload is a truthy value that is not a string.
  In every session, when the call of a task that waits for its summary settles, the post
  list changes by storing that value as the summary of the posts with the task's id; there
  is such a post, and each of them then has the value as its summary. A submission with a
  text that is not blank starts such a task, with the submitted text.
\<close>

theorem summarizeWithGemini_never_blank:
  assumes "text \<noteq> []"
  shows "(\<exists>v. summarizeWithGemini text fetched = Inr v
     \<and> v = (case payload_of fetched of
              None \<Rightarrow> JStr (if length text \<le> 100 then text else take 100 text @ ''...'')
            | Some data \<Rightarrow> js_or (property data ''summary'') (JStr ''Unable to generate summary''))
     \<and> truthy (Some v)
     \<and> ((\<exists>s. v = JStr s \<and> s \<noteq> []) \<longleftrightarrow>
          \<not> (\<exists>data. payload_of fetched = Some data
                \<and> truthy_non_string (property data ''summary'')))
     \<and> (\<forall>evs k. k < length (tasks (run evs)) \<longrightarrow>
           task_at (tasks (run evs) ! k) = AwaitSummary \<longrightarrow>
           task_newPost (tasks (run evs) ! k) = text \<longrightarrow>
             posts (feed (run (evs @ [Arrived k fetched])))
               = set_summary (task_postId (tasks (run evs) ! k)) v (posts (feed (run evs)))
             \<and> (\<exists>p \<in> set (posts (feed (run (evs @ [Arrived k fetched])))).
                   id_post p = task_postId (tasks (run evs) ! k))
             \<and> (\<forall>p \<in> set (posts (feed (run (evs @ [Arrived k fetched])))).
                   id_post p = task_postId (tasks (run evs) ! k) \<longrightarrow> summary p = Some v)))
   \<and> (trim (newPost (feed (run evs0))) \<noteq> [] \<longrightarrow>
        tasks (run (evs0 @ [Submitted now date])) =
          tasks (run evs0) @
            [\<lparr>task_postId = toString now, task_newPost = newPost (feed (run evs0)),
              task_postType = postType (feed (run evs0)), task_at = AwaitSummary\<rparr>])"
proof -
  define v where "v = (case payload_of fetched of
              None \<Rightarrow> JStr (if length text \<le> 100 then text else take 100 text @ ''...'')
            | Some data \<Rightarrow> js_or (property data ''summary'') (JStr ''Unable to generate summary''))"
  have r: "summarizeWithGemini text fetched = Inr v"
    unfolding v_def by (rule summarizeWithGemini_value)
  have t: "truthy (Some v)"
    using assms by (cases "payload_of fetched") (simp_all add: v_def js_or_is_truthy)
  have s: "(\<exists>s. v = JStr s \<and> s \<noteq> []) \<longleftrightarrow>
          \<not> (\<exists>data. payload_of fetched = Some data
                \<and> truthy_non_string (property data ''summary''))"
  proof (cases "payload_of fetched")
    case None
    with assms show ?thesis by (simp add: v_def)
  next
    case (Some data)
    with js_or_string_iff [of "''Unable to generate summary''" "property data ''summary''"]
    show ?thesis by (simp add: v_def)
  qed
  have f: "\<forall>evs k. k < length (tasks (run evs)) \<longrightarrow>
           task_at (tasks (run evs) ! k) = AwaitSummary \<longrightarrow>
           task_newPost (tasks (run evs) ! k) = text \<longrightarrow>
             posts (feed (run (evs @ [Arrived k fetched])))
               = set_summary (task_postId (tasks (run evs) ! k)) v (posts (feed (run evs)))
             \<and> (\<exists>p \<in> set (posts (feed (run (evs @ [Arrived k fetched])))).
                   id_post p = task_postId (tasks (run evs) ! k))
             \<and> (\<forall>p \<in> set (posts (feed (run (evs @ [Arrived k fetched])))).
                   id_post p = task_postId (tasks (run evs) ! k) \<longrightarrow> summary p = Some v)"
  proof (intro allI impI)
    fix evs k
    assume k: "k < length (tasks (run evs))"
      and a: "task_at (tasks (run evs) ! k) = AwaitSummary"
      and n: "task_newPost (tasks (run evs) ! k) = text"
    from r n have "summarizeWithGemini (task_newPost (tasks (run evs) ! k)) fetched = Inr v"
      by simp
    from summary_arrives [OF k a this]
    show "posts (feed (run (evs @ [Arrived k fetched])))
               = set_summary (task_postId (tasks (run evs) ! k)) v (posts (feed (run evs)))
             \<and> (\<exists>p \<in> set (posts (feed (run (evs @ [Arrived k fetched])))).
                   id_post p = task_postId (tasks (run evs) ! k))
             \<and> (\<forall>p \<in> set (posts (feed (run (evs @ [Arrived k fetched])))).
                   id_post p = task_postId (tasks (run evs) ! k) \<longrightarrow> summary p = Some v)"
      by blast
  qed
  have c: "trim (newPost (feed (run evs0))) \<noteq> [] \<longrightarrow>
        tasks (run (evs0 @ [Submitted now date])) =
          tasks (run evs0) @
            [\<lparr>task_postId = toString now, task_newPost = newPost (feed (run evs0)),
              task_postType = postType (feed (run evs0)), task_at = AwaitSummary\<rparr>]"
    using submitted_task [of "run evs0" now date] by (simp add: run_snoc del: step.simps)
  from r t s f have "\<exists>w. summarizeWithGemini text fetched = Inr w
     \<and> w = v \<and> truthy (Some w)
     \<and> ((\<exists>s. w = JStr s \<and> s \<noteq> []) \<longleftrightarrow>
          \<not> (\<exists>data. payload_of fetched = Some data
                \<and> truthy_non_string (property data ''summary'')))
     \<and> (\<forall>evs k. k < length (tasks (run evs)) \<longrightarrow>
           task_at (tasks (run evs) ! k) = AwaitSummary \<longrightarrow>
           task_newPost (tasks (run evs) ! k) = text \<longrightarrow>
             posts (feed (run (evs @ [Arrived k fetched])))
               = set_summary (task_postId (tasks (run evs) ! k)) w (posts (feed (run evs)))
             \<and> (\<exists>p \<in> set (posts (feed (run (evs @ [Arrived k fetched])))).
                   id_post p = task_postId (tasks (run evs) ! k))
             \<and> (\<forall>p \<in> set (posts (feed (run (evs @ [Arrived k fetched])))).
                   id_post p = task_postId (tasks (run evs) ! k) \<longrightarrow> summary p = Some w))"
    by blast
  with c show ?thesis unfolding v_def by blast
qed

text \<open>
  The theorem on a session with one submitted post whose call fails: the post gets its
  own text as summary.
\<close>

theorem summarizeWithGemini_never_blank_witness:
  "''Rain today'' \<noteq> []
   \<and> (0 :: nat) < length (tasks (run rain_submitted))
   \<and> task_at (tasks (run rain_submitted) ! 0) = AwaitSummary
   \<and> task_newPost (tasks (run rain_submitted) ! 0) = ''Rain today''
   \<and> summarizeWithGemini ''Rain today'' (Inl FetchFailed) = Inr (JStr ''Rain today'')
   \<and> posts (feed (run (rain_submitted @ [Arrived 0 (Inl FetchFailed)])))
       = [\<lparr>id_post = toString 1700000000001, author = ''You'', content = ''Rain today'',
           summary = Some (JStr ''Rain today''), timestamp = 1700000000002,
           type_post = Soil\<rparr>]"
proof -
  have n: "''Rain today'' \<noteq> []" by simp
  have run: "run rain_submitted =
      \<lparr>feed = \<lparr>posts = [\<lparr>id_post = toString 1700000000001, author = ''You'',
                          content = ''Rain today'', summary = None,
                          timestamp = 1700000000002, type_post = Soil\<rparr>],
                newPost = [], postType = Soil, loading = False,
                summarizing = Some (toString 1700000000001), playingAudio = None\<rparr>,
       tasks = [\<lparr>task_postId = toString 1700000000001, task_newPost = ''Rain today'',
                 task_postType = Soil, task_at = AwaitSummary\<rparr>],
       sent = [summarize_request ''Rain today'']\<rparr>"
    by (simp add: rain_submitted_def run_def initial_session_def initial_feed_def
        handleSubmit_def Let_def trim_def js_whitespace_def)
  have p: "payload_of (Inl FetchFailed) = None" by (simp add: payload_of_def)
  from summarizeWithGemini_never_blank [OF n, of "Inl FetchFailed"]
  obtain v where v: "summarizeWithGemini ''Rain today'' (Inl FetchFailed) = Inr v"
    "v = (case payload_of (Inl FetchFailed) of
              None \<Rightarrow> JStr (if length ''Rain today'' \<le> 100 then ''Rain today''
                              else take 100 ''Rain today'' @ ''...'')
            | Some data \<Rightarrow> js_or (property data ''summary'') (JStr ''Unable to generate summary''))"
    and f: "\<forall>evs k. k < length (tasks (run evs)) \<longrightarrow>
           task_at (tasks (run evs) ! k) = AwaitSummary \<longrightarrow>
           task_newPost (tasks (run evs) ! k) = ''Rain today'' \<longrightarrow>
             posts (feed (run (evs @ [Arrived k (Inl FetchFailed)])))
               = set_summary (task_postId (tasks (run evs) ! k)) v (posts (feed (run evs)))"
    by blast
  from v p have v': "v = JStr ''Rain today''" by simp
  have "posts (feed (run (rain_submitted @ [Arrived 0 (Inl FetchFailed)])))
          = set_summary (task_postId (tasks (run rain_submitted) ! 0)) v
              (posts (feed (run rain_submitted)))"
    using f [rule_format, of 0 rain_submitted] by (simp add: run)
  with v v' show ?thesis by (simp add: run set_summary_def)
qed

text \<open>
  C6 as stated fails: a payload whose \<open>summary\<close> is a truthy value that is not a string
  comes back as it is, here the number 42.
\<close>

theorem summarizeWithGemini_not_a_string:
  "summarizeWithGemini ''Rain expected on Friday''
     (Inr \<lparr>ok = True, json_result = Inr (JObj [(''summary'', JNum 42)]),
           blob_result = Inl TypeError\<rparr>)
   = Inr (JNum 42)"
  by (simp add: summarizeWithGemini_def summarize_try_def js_or_def)

section \<open>Listening to a post\<close>

lemma fire_keeps: "clears_on l = [] \<Longrightarrow> foldl media_fire l evs = l"
  by (induction evs) (simp_all add: media_fire_def)

text \<open>
  C7. The speech proxy answers that its key is missing, and the browser has no
  \<open>window.speechSynthesis\<close>: the call returns with the flag set, nothing spoken and no
  handler installed, so the flag stays set whatever media events follow. In the \<open>catch\<close>
  block the same situation clears the flag.
\<close>

theorem listen_flag_stays_set:
  "speakWithElevenLabs ''Rain today'' ''1700000000001'' False key_missing play
     = \<lparr>playing = Some ''1700000000001'', clears_on = [], spoken = [], played = False\<rparr>
   \<and> playing (foldl media_fire
        (speakWithElevenLabs ''Rain today'' ''1700000000001'' False key_missing play) evs)
       = Some ''1700000000001''
   \<and> speakWithElevenLabs ''Rain today'' ''1700000000001'' False (Inl FetchFailed) play
     = \<lparr>playing = None, clears_on = [], spoken = [], played = False\<rparr>"
  by (simp add: speakWithElevenLabs_def speak_try_def key_missing_def fire_keeps)

end
